theory Spec2Isabelle
  imports Complex_Main
begin

section \<open>Numbers\<close>

text \<open>
  The widget computes on numpy float64 values. They are modelled as exact reals with one
  extra value for NaN (\<open>None\<close>): arithmetic propagates NaN and every comparison with
  NaN is false, as in IEEE 754. Rounding and the infinities are not modelled.
\<close>

type_synonym float64 = "real option"

definition fsub :: "float64 \<Rightarrow> float64 \<Rightarrow> float64" where
  "fsub a b = (case a of None \<Rightarrow> None
                | Some u \<Rightarrow> (case b of None \<Rightarrow> None | Some v \<Rightarrow> Some (u - v)))"

definition fmul :: "float64 \<Rightarrow> float64 \<Rightarrow> float64" where
  "fmul a b = (case a of None \<Rightarrow> None
                | Some u \<Rightarrow> (case b of None \<Rightarrow> None | Some v \<Rightarrow> Some (u * v)))"

definition fgt :: "float64 \<Rightarrow> float64 \<Rightarrow> bool" where
  "fgt a b = (case a of None \<Rightarrow> False
               | Some u \<Rightarrow> (case b of None \<Rightarrow> False | Some v \<Rightarrow> u > v))"

section \<open>Geometry kernel\<close>

text \<open>
  The namedtuple \<open>point\<close> with fields \<open>x\<close> and \<open>y\<close>; the fields are called
  \<open>xc\<close> and \<open>yc\<close> here so that \<open>x\<close> and \<open>y\<close> stay usable as variables.
\<close>

record point =
  xc :: float64
  yc :: float64

text \<open>\<^verbatim>\<open>return (c.y - a.y) * (b.x - a.x) > (b.y - a.y) * (c.x - a.x)\<close>\<close>

definition ccw :: "point \<Rightarrow> point \<Rightarrow> point \<Rightarrow> bool" where
  "ccw a b c = fgt (fmul (fsub (yc c) (yc a)) (fsub (xc b) (xc a)))
                   (fmul (fsub (yc b) (yc a)) (fsub (xc c) (xc a)))"

text \<open>\<^verbatim>\<open>return ccw(a, c, d) != ccw(b, c, d) and ccw(a, b, c) != ccw(a, b, d)\<close>\<close>

definition intersects :: "point \<Rightarrow> point \<Rightarrow> point \<Rightarrow> point \<Rightarrow> bool" where
  "intersects a b c d = (ccw a c d \<noteq> ccw b c d \<and> ccw a b c \<noteq> ccw a b d)"



section \<open>Errors\<close>

text \<open>
  The Python exceptions the modelled code can raise. A function that can raise returns
  \<open>error + 'a\<close>, with \<open>Inl\<close> for the exception.
\<close>

datatype error = KeyError | IndexError | ValueError | TypeError

section \<open>numpy\<close>

text \<open>
  A two-dimensional array: its number of columns and its rows (each row has
  \<open>ncols\<close> entries). The widget only reduces along axis 0, column by column.
\<close>

record ndarray =
  ncols :: nat
  arows :: "float64 list list"

definition column :: "ndarray \<Rightarrow> nat \<Rightarrow> float64 list" where
  "column a j = map (\<lambda>row. row ! j) (arows a)"

text \<open>The entries of a column that are not NaN.\<close>

fun not_nan :: "float64 list \<Rightarrow> real list" where
  "not_nan [] = []"
| "not_nan (None # vs) = not_nan vs"
| "not_nan (Some v # vs) = v # not_nan vs"

text \<open>\<^verbatim>\<open>np.nanmean(a, axis=0)\<close>: the mean of the entries that are not NaN; NaN for a
  column with no such entry.\<close>

definition nanmean1 :: "float64 list \<Rightarrow> float64" where
  "nanmean1 vs = (case not_nan vs of [] \<Rightarrow> None
                   | r # rs \<Rightarrow> Some (sum_list (r # rs) / real (length (r # rs))))"

definition nanmean :: "ndarray \<Rightarrow> float64 list" where
  "nanmean a = map (\<lambda>j. nanmean1 (column a j)) [0..<ncols a]"

text \<open>\<^verbatim>\<open>np.nanmax(a, axis=0)\<close> and \<^verbatim>\<open>np.nanmin(a, axis=0)\<close>: NaN for an all-NaN column;
  a reduction over zero rows raises ValueError.\<close>

definition nanmax1 :: "float64 list \<Rightarrow> float64" where
  "nanmax1 vs = (case not_nan vs of [] \<Rightarrow> None | r # rs \<Rightarrow> Some (fold max rs r))"

definition nanmin1 :: "float64 list \<Rightarrow> float64" where
  "nanmin1 vs = (case not_nan vs of [] \<Rightarrow> None | r # rs \<Rightarrow> Some (fold min rs r))"

definition nanmax :: "ndarray \<Rightarrow> error + float64 list" where
  "nanmax a = (if arows a = [] \<and> 0 < ncols a then Inl ValueError
               else Inr (map (\<lambda>j. nanmax1 (column a j)) [0..<ncols a]))"

definition nanmin :: "ndarray \<Rightarrow> error + float64 list" where
  "nanmin a = (if arows a = [] \<and> 0 < ncols a then Inl ValueError
               else Inr (map (\<lambda>j. nanmin1 (column a j)) [0..<ncols a]))"

text \<open>
  \<^verbatim>\<open>np.nanpercentile(a, q, axis=0)\<close> with the default linear method: the entries that
  are not NaN are sorted, the virtual index is \<open>q / 100 * (n - 1)\<close>, and the result
  interpolates linearly between the two neighbouring order statistics. NaN for a column
  with no entry that is not NaN.
\<close>

definition percentile_sorted :: "real \<Rightarrow> real list \<Rightarrow> real" where
  "percentile_sorted q s =
     (let n = length s;
          vi = q / 100 * real (n - 1);
          lo = nat \<lfloor>vi\<rfloor>;
          hi = min (lo + 1) (n - 1);
          g = vi - real lo
      in (1 - g) * s ! lo + g * s ! hi)"

definition nanpercentile1 :: "real \<Rightarrow> float64 list \<Rightarrow> float64" where
  "nanpercentile1 q vs = (case not_nan vs of [] \<Rightarrow> None
                           | r # rs \<Rightarrow> Some (percentile_sorted q (sort (r # rs))))"

definition nanpercentile :: "ndarray \<Rightarrow> real \<Rightarrow> float64 list" where
  "nanpercentile a q = map (\<lambda>j. nanpercentile1 q (column a j)) [0..<ncols a]"

text \<open>\<^verbatim>\<open>np.maximum\<close> and \<^verbatim>\<open>np.minimum\<close> propagate NaN.\<close>

definition fmaximum :: "float64 \<Rightarrow> float64 \<Rightarrow> float64" where
  "fmaximum a b = (case a of None \<Rightarrow> None
                    | Some u \<Rightarrow> (case b of None \<Rightarrow> None | Some v \<Rightarrow> Some (max u v)))"

definition fminimum :: "float64 \<Rightarrow> float64 \<Rightarrow> float64" where
  "fminimum a b = (case a of None \<Rightarrow> None
                    | Some u \<Rightarrow> (case b of None \<Rightarrow> None | Some v \<Rightarrow> Some (min u v)))"

text \<open>
  \<^verbatim>\<open>np.clip(a, a_min, a_max)\<close> with a scalar lower and an array upper bound. numpy
  documents it as \<^verbatim>\<open>np.minimum(a_max, np.maximum(a, a_min))\<close>, with no check that
  \<open>a_min \<le> a_max\<close>: where the lower bound exceeds the upper one the result is the
  upper one.
\<close>

definition clip :: "float64 list \<Rightarrow> float64 \<Rightarrow> float64 list \<Rightarrow> float64 list" where
  "clip a a_min a_max = map (\<lambda>(v, hi). fminimum hi (fmaximum v a_min)) (zip a a_max)"

text \<open>Element-wise \<^verbatim>\<open>a - b\<close> and \<^verbatim>\<open>np.arange(1, m + 1)\<close>.\<close>

definition array_sub :: "float64 list \<Rightarrow> float64 list \<Rightarrow> float64 list" where
  "array_sub a b = map (\<lambda>(u, v). fsub u v) (zip a b)"

definition arange1 :: "nat \<Rightarrow> float64 list" where
  "arange1 m = map (\<lambda>j. Some (real (j + 1))) [0..<m]"

section \<open>Orange tables\<close>

text \<open>
  The table abstraction of the Orange library, as far as the widget reads it: the
  attributes and the class variable of the domain, and the instances in row order, each
  with its id, its attribute values and its value for any variable of the domain.
\<close>

datatype Variable = ContinuousVariable string | DiscreteVariable string "string list"

fun is_continuous :: "Variable \<Rightarrow> bool" where
  "is_continuous (ContinuousVariable _) = True"
| "is_continuous (DiscreteVariable _ _) = False"

fun is_discrete :: "Variable \<Rightarrow> bool" where
  "is_discrete (ContinuousVariable _) = False"
| "is_discrete (DiscreteVariable _ _) = True"

fun var_values :: "Variable \<Rightarrow> string list" where
  "var_values (ContinuousVariable _) = []"
| "var_values (DiscreteVariable _ vs) = vs"

record Instance =
  inst_id :: nat
  inst_x :: "float64 list"
  inst_value :: "Variable \<Rightarrow> float64"

record Table =
  domain_attributes :: "Variable list"
  domain_class_var :: "Variable option"
  instances :: "Instance list"

definition len :: "Table \<Rightarrow> nat" where
  "len t = length (instances t)"

definition table_ids :: "Table \<Rightarrow> nat list" where
  "table_ids t = map inst_id (instances t)"

definition get_column_view :: "Table \<Rightarrow> Variable \<Rightarrow> float64 list" where
  "get_column_view t v = map (\<lambda>r. inst_value r v) (instances t)"

text \<open>\<^verbatim>\<open>data[rows]\<close> for a list of row indices: the rows in the order of the list;
  an index past the end raises IndexError.\<close>

definition getitem_rows :: "Table \<Rightarrow> nat list \<Rightarrow> error + Table" where
  "getitem_rows t rows =
     (if list_all (\<lambda>i. i < len t) rows
      then Inr (t\<lparr>instances := map (\<lambda>i. instances t ! i) rows\<rparr>)
      else Inl IndexError)"

text \<open>\<^verbatim>\<open>data[:, variables]\<close> for variables among the attributes: the domain and every
  instance restricted to those columns.\<close>

definition select_columns :: "Variable list \<Rightarrow> Variable list \<Rightarrow> 'a list \<Rightarrow> 'a list" where
  "select_columns attrs vars row = map snd (filter (\<lambda>(a, v). a \<in> set vars) (zip attrs row))"

definition getitem_columns :: "Table \<Rightarrow> Variable list \<Rightarrow> Table" where
  "getitem_columns t vars =
     t\<lparr>domain_attributes := select_columns (domain_attributes t) vars (domain_attributes t),
       instances := map (\<lambda>r. r\<lparr>inst_x := select_columns (domain_attributes t) vars (inst_x r)\<rparr>)
                        (instances t)\<rparr>"

text \<open>\<^verbatim>\<open>data.X\<close>\<close>

definition table_X :: "Table \<Rightarrow> ndarray" where
  "table_X t = \<lparr>ncols = length (domain_attributes t), arows = map inst_x (instances t)\<rparr>"

text \<open>
  \<^verbatim>\<open>create_annotated_table(data, selected_indices)\<close> of the Orange library: None for
  no data, else the table with one more column that is true at the selected rows; row order
  is kept. An index past the end raises IndexError.
\<close>

type_synonym AnnotatedTable = "Table \<times> bool list"

definition create_annotated_table :: "Table option \<Rightarrow> nat list \<Rightarrow> error + AnnotatedTable option" where
  "create_annotated_table data selected_indices =
     (case data of None \<Rightarrow> Inr None
      | Some t \<Rightarrow>
          if list_all (\<lambda>i. i < len t) selected_indices
          then Inr (Some (t, map (\<lambda>i. i \<in> set selected_indices) [0..<len t]))
          else Inl IndexError)"

section \<open>Plot items and the graph\<close>

text \<open>
  \<^verbatim>\<open>LinePlotItem\<close>: one profile curve. The fields \<open>index\<close>, \<open>id\<close>, \<open>_selected\<close> and
  \<open>_in_subset\<close> of the source carry the prefix \<open>item_\<close>; \<open>item_visible\<close> is what
  \<^verbatim>\<open>setVisible\<close> sets. The pen (colour, width, alpha) is rendering and is left out.
\<close>

record LinePlotItem =
  item_index :: nat
  item_id :: nat
  xData :: "float64 list"
  yData :: "float64 list"
  item_selected :: bool
  item_in_subset :: bool
  item_visible :: bool

definition new_LinePlotItem :: "nat \<Rightarrow> nat \<Rightarrow> float64 list \<Rightarrow> float64 list \<Rightarrow> LinePlotItem" where
  "new_LinePlotItem index instance_id x y =
     \<lparr>item_index = index, item_id = instance_id, xData = x, yData = y,
      item_selected = False, item_in_subset = False, item_visible = True\<rparr>"

definition into_subset :: "LinePlotItem \<Rightarrow> LinePlotItem" where
  "into_subset it = it\<lparr>item_in_subset := True\<rparr>"

definition out_of_subset :: "LinePlotItem \<Rightarrow> LinePlotItem" where
  "out_of_subset it = it\<lparr>item_in_subset := False\<rparr>"

definition select :: "LinePlotItem \<Rightarrow> LinePlotItem" where
  "select it = it\<lparr>item_selected := True\<rparr>"

definition deselect :: "LinePlotItem \<Rightarrow> LinePlotItem" where
  "deselect it = it\<lparr>item_selected := False\<rparr>"

definition setVisible :: "bool \<Rightarrow> LinePlotItem \<Rightarrow> LinePlotItem" where
  "setVisible b it = it\<lparr>item_visible := b\<rparr>"

text \<open>
  \<^verbatim>\<open>line_segments_line_intersect(p1, p2, item)\<close>: the loop over
  \<^verbatim>\<open>range(len(item.xData) - 1)\<close> returns True at the first segment that intersects.
  \<open>xData\<close> and \<open>yData\<close> have the same length.
\<close>

definition item_point :: "LinePlotItem \<Rightarrow> nat \<Rightarrow> point" where
  "item_point item i = \<lparr>xc = xData item ! i, yc = yData item ! i\<rparr>"

definition line_segments_line_intersect :: "point \<Rightarrow> point \<Rightarrow> LinePlotItem \<Rightarrow> bool" where
  "line_segments_line_intersect p1 p2 item =
     list_ex (\<lambda>i. intersects p1 p2 (item_point item i) (item_point item (i + 1)))
             [0..<length (xData item) - 1]"

datatype PlotState = SELECT | PANNING | ZOOMING

datatype LinePlotDisplay = RANGE_WITH_MEAN | INSTANCES | MEAN | INSTANCES_WITH_MEAN

datatype KeyboardModifier = ShiftModifier | ControlModifier | AltModifier

datatype MouseButton = LeftButton | RightButton | MiddleButton

text \<open>
  \<^verbatim>\<open>LinePlotGraph\<close>. The dictionaries \<open>_items\<close> (by index) and \<open>_items_by_id\<close> (by
  instance id) and the widget's list of profiles hold the same item objects. The items are
  stored once, under their index; \<open>items_by_id\<close> and the profile list hold indices. Items
  are only created by \<open>_plot_profiles\<close>, one per row with distinct indices, on a graph
  that \<open>reset\<close> has emptied.
\<close>

record LinePlotGraph =
  items :: "nat \<rightharpoonup> LinePlotItem"
  items_by_id :: "nat \<rightharpoonup> nat"
  graph_selection :: "nat set"
  graph_state :: PlotState

definition update_items ::
  "(LinePlotItem \<Rightarrow> LinePlotItem) \<Rightarrow> nat set \<Rightarrow> (nat \<rightharpoonup> LinePlotItem) \<Rightarrow> (nat \<rightharpoonup> LinePlotItem)" where
  "update_items f S m = (\<lambda>i. if i \<in> S then map_option f (m i) else m i)"

definition graph_reset :: "LinePlotGraph \<Rightarrow> LinePlotGraph" where
  "graph_reset g = \<lparr>items = Map.empty, items_by_id = Map.empty, graph_selection = {},
                    graph_state = SELECT\<rparr>"

definition add_line_plot_item :: "LinePlotItem \<Rightarrow> LinePlotGraph \<Rightarrow> LinePlotGraph" where
  "add_line_plot_item item g =
     g\<lparr>items := (items g)(item_index item \<mapsto> item),
       items_by_id := (items_by_id g)(item_id item \<mapsto> item_index item)\<rparr>"

text \<open>\<^verbatim>\<open>select_subset(ids)\<close>: \<^verbatim>\<open>self._items_by_id[i].into_subset()\<close> for every id;
  a missing id raises KeyError.\<close>

definition select_subset :: "nat set \<Rightarrow> LinePlotGraph \<Rightarrow> error + LinePlotGraph" where
  "select_subset ids g =
     (if ids \<subseteq> dom (items_by_id g)
      then Inr (g\<lparr>items := update_items into_subset ((\<lambda>i. the (items_by_id g i)) ` ids) (items g)\<rparr>)
      else Inl KeyError)"

definition deselect_subset :: "LinePlotGraph \<Rightarrow> LinePlotGraph" where
  "deselect_subset g = g\<lparr>items := (\<lambda>i. map_option out_of_subset (items g i))\<rparr>"

section \<open>The widget\<close>

text \<open>The three items of a group: mean curve, range band and error bar, each with the
  visibility that \<^verbatim>\<open>setVisible\<close> sets.\<close>

record PlotDataItem =
  curve_x :: "float64 list"
  curve_y :: "float64 list"

record ErrorBarItem =
  bar_x :: "float64 list"
  bar_y :: "float64 list"
  bar_bottom :: "float64 list"
  bar_top :: "float64 list"

record Group =
  group_mean :: PlotDataItem
  group_range :: "PlotDataItem \<times> PlotDataItem"
  group_error_bar :: ErrorBarItem
  mean_visible :: bool
  range_visible :: bool
  error_bar_visible :: bool

text \<open>What \<^verbatim>\<open>openContext\<close> restores from a stored context: the context settings
  \<open>group_var\<close> and \<open>selection\<close>.\<close>

record Context =
  context_group_var :: "Variable option"
  context_selection :: "nat list"

text \<open>
  Names follow the source, without the leading underscores of private methods;
  \<open>LinePlotGraph.select\<close> and \<open>LinePlotGraph.reset\<close> are \<open>graph_select\<close> and
  \<open>graph_reset\<close>, since \<open>LinePlotItem\<close> has a \<open>select\<close> of its own.

  \<^verbatim>\<open>OWLinePlot\<close>. \<open>information\<close> holds the messages of \<^verbatim>\<open>self.Information\<close> that are
  shown (the widget declares no warning and no error message), \<open>sent\<close> the pairs sent on
  the outputs \<open>selected_data\<close> and \<open>annotated_data\<close>, the latest first. Two fields are the
  environment the code reads: \<open>keyboardModifiers\<close> is what
  \<^verbatim>\<open>QApplication.keyboardModifiers()\<close> returns, and \<open>set_order\<close> is the order in which
  Python iterates over a set of ints, which \<^verbatim>\<open>list(self.graph.selection)\<close> exposes. No
  function changes them.
\<close>

record OWLinePlot =
  data :: "Table option"
  data_subset :: "Table option"
  subset_selection :: "nat set"
  graph_variables :: "Variable list"
  group_var :: "Variable option"
  display_index :: LinePlotDisplay
  display_quartiles :: bool
  selection :: "nat list"
  groups :: "Group option list option"
  profiles :: "nat list option"
  graph :: LinePlotGraph
  information :: "string list"
  sent :: "(Table option \<times> AnnotatedTable option) list"
  keyboardModifiers :: "KeyboardModifier set"
  set_order :: "nat set \<Rightarrow> nat list"

definition not_enough_attrs :: string where
  "not_enough_attrs = ''Need at least one continuous feature.''"

text \<open>The state \<^verbatim>\<open>__init__\<close> leaves, with the default settings.\<close>

definition OWLinePlot_init :: "KeyboardModifier set \<Rightarrow> (nat set \<Rightarrow> nat list) \<Rightarrow> OWLinePlot" where
  "OWLinePlot_init keys order =
     \<lparr>data = None, data_subset = None, subset_selection = {}, graph_variables = [],
      group_var = None, display_index = RANGE_WITH_MEAN, display_quartiles = False,
      selection = [], groups = None, profiles = None,
      graph = \<lparr>items = Map.empty, items_by_id = Map.empty, graph_selection = {},
                graph_state = SELECT\<rparr>,
      information = [], sent = [], keyboardModifiers = keys, set_order = order\<rparr>"

definition has_selection :: "OWLinePlot \<Rightarrow> bool" where
  "has_selection w = (selection w \<noteq> [])"

definition has_subset :: "OWLinePlot \<Rightarrow> bool" where
  "has_subset w = (case data_subset w of None \<Rightarrow> False | Some s \<Rightarrow> 0 < len s)"

subsection \<open>Aggregates of a group\<close>

definition get_mean_curve :: "float64 list \<Rightarrow> float64 list \<Rightarrow> PlotDataItem" where
  "get_mean_curve X mean = \<lparr>curve_x = X, curve_y = mean\<rparr>"

definition get_range_curve :: "float64 list \<Rightarrow> Table \<Rightarrow> error + PlotDataItem \<times> PlotDataItem" where
  "get_range_curve X group_data =
     (case nanmax (table_X group_data) of Inl e \<Rightarrow> Inl e
      | Inr mx \<Rightarrow>
          (case nanmin (table_X group_data) of Inl e \<Rightarrow> Inl e
           | Inr mn \<Rightarrow> Inr (\<lparr>curve_x = X, curve_y = mx\<rparr>, \<lparr>curve_x = X, curve_y = mn\<rparr>)))"

text \<open>
  \<^verbatim>\<open>q1, q2, q3 = np.nanpercentile(data.X, [25, 50, 75], axis=0)
  bottom = np.clip(mean - q1, 0, mean - q1)
  top = np.clip(q3 - mean, 0, q3 - mean)
  return pg.ErrorBarItem(x=X, y=mean, bottom=bottom, top=top, beam=0.01)\<close>
\<close>

definition get_error_bar :: "float64 list \<Rightarrow> Table \<Rightarrow> float64 list \<Rightarrow> ErrorBarItem" where
  "get_error_bar X group_data mean =
     (let q1 = nanpercentile (table_X group_data) 25;
          q2 = nanpercentile (table_X group_data) 50;
          q3 = nanpercentile (table_X group_data) 75;
          bottom = clip (array_sub mean q1) (Some 0) (array_sub mean q1);
          top = clip (array_sub q3 mean) (Some 0) (array_sub q3 mean)
      in \<lparr>bar_x = X, bar_y = mean, bar_bottom = bottom, bar_top = top\<rparr>)"

text \<open>\<^verbatim>\<open>__plot_group\<close> builds the three items of one group and appends them to
  \<open>__groups\<close>; the model returns the group and the caller appends it.\<close>

definition plot_group :: "float64 list \<Rightarrow> Table \<Rightarrow> error + Group" where
  "plot_group X group_data =
     (let mean = nanmean (table_X group_data);
          mean_curve = get_mean_curve X mean
      in case get_range_curve X group_data of Inl e \<Rightarrow> Inl e
         | Inr range_curve \<Rightarrow>
             Inr \<lparr>group_mean = mean_curve, group_range = range_curve,
                  group_error_bar = get_error_bar X group_data mean,
                  mean_visible = True, range_visible = True, error_bar_visible = True\<rparr>)"

text \<open>\<^verbatim>\<open>np.flatnonzero(class_col_data == i)\<close>\<close>

definition flatnonzero_eq :: "float64 list \<Rightarrow> nat \<Rightarrow> nat list" where
  "flatnonzero_eq col i = filter (\<lambda>k. col ! k = Some (real i)) [0..<length col]"

text \<open>The loop of \<open>_plot_groups\<close> over the index lists of the group values.\<close>

fun plot_group_list :: "float64 list \<Rightarrow> Table \<Rightarrow> Variable list \<Rightarrow> nat list list \<Rightarrow> error + Group option list" where
  "plot_group_list X d vars [] = Inr []"
| "plot_group_list X d vars (indices # rest) =
     (case (if length indices = 0 then Inr None
            else (case getitem_rows d indices of Inl e \<Rightarrow> Inl e
                  | Inr rows \<Rightarrow>
                      (case plot_group X (getitem_columns rows vars) of Inl e \<Rightarrow> Inl e
                       | Inr g \<Rightarrow> Inr (Some g)))) of
        Inl e \<Rightarrow> Inl e
      | Inr g \<Rightarrow> (case plot_group_list X d vars rest of Inl e \<Rightarrow> Inl e | Inr gs \<Rightarrow> Inr (g # gs)))"

definition plot_groups :: "OWLinePlot \<Rightarrow> error + OWLinePlot" where
  "plot_groups w =
     (case data w of None \<Rightarrow> Inl TypeError
      | Some d \<Rightarrow>
          let X = arange1 (length (graph_variables w)) in
          (case group_var w of
             None \<Rightarrow>
               (case plot_group X (getitem_columns d (graph_variables w)) of Inl e \<Rightarrow> Inl e
                | Inr g \<Rightarrow> Inr (w\<lparr>groups := Some [Some g]\<rparr>))
           | Some gv \<Rightarrow>
               let class_col_data = get_column_view d gv;
                   group_indices = map (flatnonzero_eq class_col_data) [0..<length (var_values gv)]
               in (case plot_group_list X d (graph_variables w) group_indices of Inl e \<Rightarrow> Inl e
                   | Inr gs \<Rightarrow> Inr (w\<lparr>groups := Some gs\<rparr>))))"

subsection \<open>Output\<close>

text \<open>
  \<^verbatim>\<open>selected = self.data[self.selection] \
      if self.data is not None and self.has_selection else None
  annotated = create_annotated_table(self.data, self.selection)
  self.Outputs.selected_data.send(selected)
  self.Outputs.annotated_data.send(annotated)\<close>
\<close>

definition commit :: "OWLinePlot \<Rightarrow> error + OWLinePlot" where
  "commit w =
     (case (case data w of None \<Rightarrow> Inr None
            | Some d \<Rightarrow>
                if has_selection w
                then (case getitem_rows d (selection w) of Inl e \<Rightarrow> Inl e | Inr t \<Rightarrow> Inr (Some t))
                else Inr None) of
        Inl e \<Rightarrow> Inl e
      | Inr selected \<Rightarrow>
          (case create_annotated_table (data w) (selection w) of Inl e \<Rightarrow> Inl e
           | Inr annotated \<Rightarrow> Inr (w\<lparr>sent := (selected, annotated) # sent w\<rparr>)))"

subsection \<open>Visibility\<close>

definition set_group_visible :: "bool \<Rightarrow> bool \<Rightarrow> bool \<Rightarrow> Group \<Rightarrow> Group" where
  "set_group_visible show_mean show_range show_error g =
     g\<lparr>mean_visible := show_mean, range_visible := show_range, error_bar_visible := show_error\<rparr>"

definition update_visibility_groups :: "OWLinePlot \<Rightarrow> OWLinePlot" where
  "update_visibility_groups w =
     (let show_mean = (display_index w \<in> {MEAN, INSTANCES_WITH_MEAN, RANGE_WITH_MEAN});
          show_range = (display_index w = RANGE_WITH_MEAN)
      in w\<lparr>groups := map_option
                        (map (map_option (set_group_visible show_mean show_range (display_quartiles w))))
                        (groups w)\<rparr>)"

text \<open>
  The second half of \<open>__update_visibility_profiles\<close>, for the profiles \<open>ps\<close>:
  \<^verbatim>\<open>selection = set(chain(self.selection,
                        self.data_subset.ids if self.has_subset else []))
  for profile in self.__profiles:
      selected = profile.index in selection
      profile.setVisible(show_inst or selected and show_selection)\<close>
\<close>

definition set_profiles_visible :: "nat list \<Rightarrow> OWLinePlot \<Rightarrow> OWLinePlot" where
  "set_profiles_visible ps w =
     (let show_selection = (display_index w = RANGE_WITH_MEAN);
          show_inst = (display_index w \<in> {INSTANCES, INSTANCES_WITH_MEAN});
          sel = set (selection w)
                \<union> (if has_subset w then set (table_ids (the (data_subset w))) else {})
      in w\<lparr>graph := (graph w)\<lparr>items :=
            (\<lambda>i. if i \<in> set ps
                  then map_option
                         (\<lambda>profile. setVisible (show_inst \<or> item_index profile \<in> sel \<and> show_selection)
                                               profile)
                         (items (graph w) i)
                  else items (graph w) i)\<rparr>\<rparr>)"

subsection \<open>Selection and the lazily created profiles\<close>

text \<open>
  Six methods call each other in a cycle: \<open>__update_visibility_profiles\<close> creates the
  profiles when there are none (\<open>_plot_profiles\<close>), which re-applies the stored selection
  (\<open>__select_data_instances\<close>, \<open>LinePlotGraph.select\<close>), which reports to the widget
  (\<open>selection_changed\<close>), which updates the visibility again. The cycle ends because
  \<open>_plot_profiles\<close> sets \<open>__profiles\<close> before it goes on.

  \<open>graph_select\<close> is \<^verbatim>\<open>LinePlotGraph.select(indices)\<close>; a selected index with no item
  raises KeyError. \<open>_plot_profiles\<close> and the other methods that subscript \<open>self.data\<close>
  raise TypeError when it is None. The colours of the curves (\<open>__get_line_color\<close>, the
  palette) and the legend are rendering and are left out, as is \<open>closeContext\<close>, which
  only writes to the stored contexts.
\<close>

function select_data_instances :: "OWLinePlot \<Rightarrow> error + OWLinePlot"
  and graph_select :: "nat list \<Rightarrow> OWLinePlot \<Rightarrow> error + OWLinePlot"
  and selection_changed :: "OWLinePlot \<Rightarrow> error + OWLinePlot"
  and update_visibility :: "OWLinePlot \<Rightarrow> error + OWLinePlot"
  and update_visibility_profiles :: "OWLinePlot \<Rightarrow> error + OWLinePlot"
  and plot_profiles :: "OWLinePlot \<Rightarrow> error + OWLinePlot"
where
  "select_data_instances w =
     (case data w of None \<Rightarrow> Inr w
      | Some d \<Rightarrow>
          if len d = 0 \<or> \<not> has_selection w then Inr w
          else if Max (set (selection w)) \<ge> len d
               then graph_select [] (w\<lparr>selection := []\<rparr>)
               else graph_select (selection w) w)"
| "graph_select indices w =
     (if graph_selection (graph w) \<subseteq> dom (items (graph w))
      then
        (let deselected = update_items deselect (graph_selection (graph w)) (items (graph w));
             keys = keyboardModifiers w;
             sel = (if ControlModifier \<in> keys
                    then (graph_selection (graph w) - set indices)
                         \<union> (set indices - graph_selection (graph w))
                    else if AltModifier \<in> keys then graph_selection (graph w) - set indices
                    else if ShiftModifier \<in> keys then graph_selection (graph w) \<union> set indices
                    else set indices)
         in if sel \<subseteq> dom deselected
            then selection_changed
                   (w\<lparr>graph := (graph w)\<lparr>graph_selection := sel,
                                          items := update_items select sel deselected\<rparr>\<rparr>)
            else Inl KeyError)
      else Inl KeyError)"
| "selection_changed w =
     (case update_visibility (w\<lparr>selection := set_order w (graph_selection (graph w))\<rparr>) of
        Inl e \<Rightarrow> Inl e
      | Inr w1 \<Rightarrow> commit w1)"
| "update_visibility w =
     (case update_visibility_profiles w of Inl e \<Rightarrow> Inl e
      | Inr w1 \<Rightarrow> Inr (update_visibility_groups w1))"
| "update_visibility_profiles w =
     (case (if profiles w = None
               \<and> (display_index w \<in> {INSTANCES, INSTANCES_WITH_MEAN}
                  \<or> display_index w = RANGE_WITH_MEAN)
               \<and> data w \<noteq> None
            then (case plot_profiles w of Inl e \<Rightarrow> Inl e
                  | Inr w1 \<Rightarrow>
                      (case select_subset (subset_selection w1) (graph w1) of Inl e \<Rightarrow> Inl e
                       | Inr g \<Rightarrow> Inr (w1\<lparr>graph := g\<rparr>)))
            else Inr w) of
        Inl e \<Rightarrow> Inl e
      | Inr w2 \<Rightarrow>
          (case profiles w2 of None \<Rightarrow> Inr w2
           | Some ps \<Rightarrow> Inr (set_profiles_visible ps w2)))"
| "plot_profiles w =
     (case data w of None \<Rightarrow> Inl TypeError
      | Some d \<Rightarrow>
          select_data_instances
            (w\<lparr>profiles := Some [0..<len d],
               graph := fold add_line_plot_item
                          (map (\<lambda>(index, inst).
                                  new_LinePlotItem index (inst_id inst)
                                    (arange1 (length (graph_variables w))) (inst_x inst))
                               (zip [0..<len d] (instances (getitem_columns d (graph_variables w)))))
                          (graph w)\<rparr>))"
  by pat_completeness auto
termination
  apply (relation "measure (\<lambda>x. case x of
      Inl (Inl w) \<Rightarrow> (if profiles w = None then 12 else 5)
    | Inl (Inr (Inl (indices, w))) \<Rightarrow> (if profiles w = None then 11 else 4)
    | Inl (Inr (Inr w)) \<Rightarrow> (if profiles w = None then 10 else 3)
    | Inr (Inl w) \<Rightarrow> (if profiles w = None then 9 else 2)
    | Inr (Inr (Inl w)) \<Rightarrow> (if profiles w = None then 8 else 1)
    | Inr (Inr (Inr w)) \<Rightarrow> (if profiles w = None then 7 else 6))")
  apply simp_all
  done

declare select_data_instances.simps [simp del] graph_select.simps [simp del]
  selection_changed.simps [simp del] update_visibility.simps [simp del]
  update_visibility_profiles.simps [simp del] plot_profiles.simps [simp del]

subsection \<open>Gestures\<close>

text \<open>
  \<^verbatim>\<open>LinePlotGraph.deselect_all\<close>:
  \<^verbatim>\<open>for i in self.selection:
      self._items[i].deselect()
  self.selection.clear()
  self.master.selection_changed()\<close>
\<close>

definition deselect_all :: "OWLinePlot \<Rightarrow> error + OWLinePlot" where
  "deselect_all w =
     (if graph_selection (graph w) \<subseteq> dom (items (graph w))
      then selection_changed
             (w\<lparr>graph := (graph w)\<lparr>items := update_items deselect (graph_selection (graph w))
                                                          (items (graph w)),
                                     graph_selection := {}\<rparr>\<rparr>)
      else Inl KeyError)"

text \<open>
  \<^verbatim>\<open>select_by_line(p1, p2)\<close> walks the \<open>LinePlotItem\<close>s among the child items of the
  view box. These are the profiles, in the order in which \<open>_plot_profiles\<close> added them.
\<close>

definition select_by_line :: "point \<Rightarrow> point \<Rightarrow> OWLinePlot \<Rightarrow> error + OWLinePlot" where
  "select_by_line p1 p2 w =
     graph_select
       (filter (\<lambda>i. case items (graph w) i of None \<Rightarrow> False
                     | Some item \<Rightarrow> line_segments_line_intersect p1 p2 item)
               (case profiles w of None \<Rightarrow> [] | Some ps \<Rightarrow> ps))
       w"

definition select_by_click :: "LinePlotItem \<Rightarrow> OWLinePlot \<Rightarrow> error + OWLinePlot" where
  "select_by_click item w = graph_select [item_index item] w"

text \<open>
  \<^verbatim>\<open>LinePlotViewBox.mouseClickEvent\<close>: a click that no item took.
  \<^verbatim>\<open>if event.button() == Qt.RightButton:
      self.autoRange()
  else:
      event.accept()
      self.graph.deselect_all()\<close>
\<close>

definition mouseClickEvent :: "MouseButton \<Rightarrow> OWLinePlot \<Rightarrow> error + OWLinePlot" where
  "mouseClickEvent button w = (if button = RightButton then Inr w else deselect_all w)"

text \<open>\<^verbatim>\<open>LinePlotViewBox.mouseDragEvent\<close> with \<open>axis\<close> None: in the SELECT state the end of
  a drag with the left button selects by the line from \<open>p1\<close> to \<open>p2\<close>; everything else
  only draws, pans or zooms.\<close>

definition mouseDragEvent :: "MouseButton \<Rightarrow> bool \<Rightarrow> point \<Rightarrow> point \<Rightarrow> OWLinePlot \<Rightarrow> error + OWLinePlot" where
  "mouseDragEvent button isFinish p1 p2 w =
     (if graph_state (graph w) = SELECT \<and> button = LeftButton \<and> isFinish
      then select_by_line p1 p2 w
      else Inr w)"

subsection \<open>Inputs\<close>

definition clear :: "OWLinePlot \<Rightarrow> OWLinePlot" where
  "clear w = w\<lparr>groups := None, profiles := None, graph_variables := [],
               graph := graph_reset (graph w)\<rparr>"

definition openContext :: "Context option \<Rightarrow> OWLinePlot \<Rightarrow> OWLinePlot" where
  "openContext ctx w =
     (case ctx of None \<Rightarrow> w
      | Some c \<Rightarrow> w\<lparr>group_var := context_group_var c, selection := context_selection c\<rparr>)"

text \<open>
  \<^verbatim>\<open>_setup_plot\<close>:
  \<^verbatim>\<open>if self.data is None:
      return
  ...
  if self.display_index in (LinePlotDisplay.INSTANCES,
                            LinePlotDisplay.INSTANCES_WITH_MEAN):
      self._plot_profiles()
  self._plot_groups()
  self.__update_visibility()\<close>
\<close>

definition setup_plot :: "OWLinePlot \<Rightarrow> error + OWLinePlot" where
  "setup_plot w =
     (case data w of None \<Rightarrow> Inr w
      | Some d \<Rightarrow>
          (case (if display_index w \<in> {INSTANCES, INSTANCES_WITH_MEAN} then plot_profiles w
                 else Inr w) of
             Inl e \<Rightarrow> Inl e
           | Inr w1 \<Rightarrow>
               (case plot_groups w1 of Inl e \<Rightarrow> Inl e | Inr w2 \<Rightarrow> update_visibility w2)))"

text \<open>
  \<^verbatim>\<open>set_data(data)\<close>; \<open>ctx\<close> is the stored context that \<^verbatim>\<open>openContext(data)\<close> finds for
  the domain of the data, if any.
\<close>

definition set_data :: "Table option \<Rightarrow> Context option \<Rightarrow> OWLinePlot \<Rightarrow> error + OWLinePlot" where
  "set_data d ctx w =
     (let w1 = (clear w)\<lparr>information := [], data := d, selection := []\<rparr>;
          w2 = (case d of None \<Rightarrow> w1
                | Some t \<Rightarrow>
                    w1\<lparr>group_var := (case domain_class_var t of None \<Rightarrow> None
                                      | Some c \<Rightarrow> if is_discrete c then Some c else None),
                       graph_variables := filter is_continuous (domain_attributes t)\<rparr>)
      in if d \<noteq> None \<and> length (graph_variables w2) < 1
         then commit (w2\<lparr>data := None, information := not_enough_attrs # information w2\<rparr>)
         else (case setup_plot (openContext ctx w2) of Inl e \<Rightarrow> Inl e | Inr w3 \<Rightarrow> commit w3))"

definition set_data_subset :: "Table option \<Rightarrow> OWLinePlot \<Rightarrow> OWLinePlot" where
  "set_data_subset new_subset w =
     (if subset_selection w \<noteq> {}
      then w\<lparr>data_subset := new_subset, graph := deselect_subset (graph w)\<rparr>
      else w\<lparr>data_subset := new_subset\<rparr>)"

definition handleNewSignals :: "OWLinePlot \<Rightarrow> error + OWLinePlot" where
  "handleNewSignals w =
     (case (case data w of None \<Rightarrow> Inr (w\<lparr>subset_selection := {}\<rparr>)
            | Some d \<Rightarrow>
                if has_subset w \<and> graph_variables w \<noteq> []
                then (let intersection = set (table_ids d) \<inter> set (table_ids (the (data_subset w)))
                      in if profiles w \<noteq> None
                         then (case select_subset intersection (graph w) of Inl e \<Rightarrow> Inl e
                               | Inr g \<Rightarrow> Inr (w\<lparr>subset_selection := intersection, graph := g\<rparr>))
                         else Inr (w\<lparr>subset_selection := intersection\<rparr>))
                else Inr (w\<lparr>subset_selection := {}\<rparr>)) of
        Inl e \<Rightarrow> Inl e
      | Inr w1 \<Rightarrow> if data w1 \<noteq> None then update_visibility w1 else Inr w1)"

text \<open>\<open>__group_var_changed\<close>, the callback of the list view after it has stored the
  chosen variable in \<open>group_var\<close>.\<close>

definition group_var_changed :: "OWLinePlot \<Rightarrow> error + OWLinePlot" where
  "group_var_changed w =
     (if data w = None \<or> graph_variables w = [] then Inr w
      else (case plot_groups w of Inl e \<Rightarrow> Inl e | Inr w1 \<Rightarrow> update_visibility w1))"


section \<open>Example inputs\<close>

text \<open>
  \<open>column_table vs\<close> is a table with one continuous attribute \<open>a\<close> and no class variable,
  whose column holds the values \<open>vs\<close>; the row with index \<open>i\<close> has the id \<open>100 + i\<close>.
\<close>

fun column_rows :: "nat \<Rightarrow> float64 list \<Rightarrow> Instance list" where
  "column_rows i [] = []"
| "column_rows i (v # vs) =
     \<lparr>inst_id = 100 + i, inst_x = [v],
      inst_value = (\<lambda>var. if var = ContinuousVariable ''a'' then v else None)\<rparr>
     # column_rows (Suc i) vs"

definition column_table :: "float64 list \<Rightarrow> Table" where
  "column_table vs = \<lparr>domain_attributes = [ContinuousVariable ''a''], domain_class_var = None,
                       instances = column_rows 0 vs\<rparr>"

text \<open>A table with one discrete attribute and no continuous one.\<close>

definition discrete_table :: Table where
  "discrete_table =
     \<lparr>domain_attributes = [DiscreteVariable ''g'' [''no'', ''yes'']], domain_class_var = None,
      instances = [\<lparr>inst_id = 100, inst_x = [Some 0], inst_value = (\<lambda>var. Some 0)\<rparr>,
                   \<lparr>inst_id = 101, inst_x = [Some 1], inst_value = (\<lambda>var. Some 1)\<rparr>]\<rparr>"

text \<open>
  A widget that shows the three profiles of \<open>column_table [1, 2, 3]\<close> in the mode
  INSTANCES, with the profiles 0 and 1 selected. Sets are listed in ascending order.
\<close>

definition plotted_widget :: OWLinePlot where
  "plotted_widget =
     (OWLinePlot_init {} sorted_list_of_set)
       \<lparr>data := Some (column_table [Some 1, Some 2, Some 3]),
        graph_variables := [ContinuousVariable ''a''],
        display_index := INSTANCES,
        selection := [0, 1],
        profiles := Some [0, 1, 2],
        graph := \<lparr>items = (\<lambda>i. if i < 3
                             then Some ((new_LinePlotItem i (100 + i) [Some 1] [Some (real (i + 1))])
                                          \<lparr>item_selected := i < 2\<rparr>)
                             else None),
                  items_by_id = (\<lambda>k. if 100 \<le> k \<and> k < 103 then Some (k - 100) else None),
                  graph_selection = {0, 1}, graph_state = SELECT\<rparr>\<rparr>"

section \<open>Geometry: theorems\<close>










section \<open>Group aggregates\<close>







text \<open>
  Clipping an array with itself as the upper bound changes nothing, whatever the lower
  bound does: the extents of the error bar are \<open>mean - q1\<close> and \<open>q3 - mean\<close> as they
  are.
\<close>

lemma clip_by_itself: "clip a (Some 0) a = a"
proof -
  have "fminimum v (fmaximum v (Some 0)) = v" for v
    by (cases v) (simp_all add: fminimum_def fmaximum_def)
  then show ?thesis
    by (simp add: clip_def zip_same_conv_map map_idI)
qed

lemma get_error_bar_unclamped:
  "bar_bottom (get_error_bar X gd mean) = array_sub mean (nanpercentile (table_X gd) 25)"
  "bar_top (get_error_bar X gd mean) = array_sub (nanpercentile (table_X gd) 75) mean"
  by (simp_all add: get_error_bar_def Let_def clip_by_itself)

text \<open>
  Claim C1 fails on the code. The group with the single column 0, 0, 0, 0, 100 has the
  mean 20 and the third quartile 0. \<open>q3 - mean\<close> is \<open>-20\<close>, and
  \<^verbatim>\<open>np.clip(q3 - mean, 0, q3 - mean)\<close> leaves it at \<open>-20\<close>, since the upper bound of the
  clip is the value itself: the top extent of the error bar is negative, where the claim
  says \<open>max(0, q3 - mean) = 0\<close>.
\<close>

theorem error_bar_top_negative:
  "nanmean (table_X (column_table [Some 0, Some 0, Some 0, Some 0, Some 100])) = [Some 20]
   \<and> nanpercentile (table_X (column_table [Some 0, Some 0, Some 0, Some 0, Some 100])) 75 = [Some 0]
   \<and> (case plot_group [Some 1] (column_table [Some 0, Some 0, Some 0, Some 0, Some 100]) of
        Inl e \<Rightarrow> None
      | Inr g \<Rightarrow> Some (bar_bottom (group_error_bar g), bar_top (group_error_bar g)))
     = Some ([Some 20], [Some (- 20)])"
  by (simp add: plot_group_def get_range_curve_def get_mean_curve_def get_error_bar_def
      nanmean_def nanmean1_def nanmax_def nanmin_def nanpercentile_def nanpercentile1_def
      percentile_sorted_def clip_def array_sub_def fsub_def fminimum_def fmaximum_def
      table_X_def column_table_def column_def Let_def)

section \<open>The widget: basic facts\<close>

lemma dom_update_items [simp]: "dom (update_items f S m) = dom m"
  by (auto simp: update_items_def dom_def split: if_splits)

lemma set_profiles_visible_fields [simp]:
  "data (set_profiles_visible ps w) = data w"
  "selection (set_profiles_visible ps w) = selection w"
  "profiles (set_profiles_visible ps w) = profiles w"
  "groups (set_profiles_visible ps w) = groups w"
  "sent (set_profiles_visible ps w) = sent w"
  "information (set_profiles_visible ps w) = information w"
  "display_index (set_profiles_visible ps w) = display_index w"
  "graph_selection (graph (set_profiles_visible ps w)) = graph_selection (graph w)"
  "dom (items (graph (set_profiles_visible ps w))) = dom (items (graph w))"
  by (auto simp: set_profiles_visible_def Let_def dom_def split: if_splits)

lemma update_visibility_groups_fields [simp]:
  "data (update_visibility_groups w) = data w"
  "selection (update_visibility_groups w) = selection w"
  "profiles (update_visibility_groups w) = profiles w"
  "sent (update_visibility_groups w) = sent w"
  "information (update_visibility_groups w) = information w"
  "display_index (update_visibility_groups w) = display_index w"
  "graph (update_visibility_groups w) = graph w"
  "(groups (update_visibility_groups w) = None) = (groups w = None)"
  by (auto simp: update_visibility_groups_def Let_def)

text \<open>With profiles in place, updating the visibility creates nothing.\<close>

lemma update_visibility_profiles_plotted:
  "profiles w = Some ps \<Longrightarrow> update_visibility_profiles w = Inr (set_profiles_visible ps w)"
  by (simp add: update_visibility_profiles.simps set_profiles_visible_def)

lemma update_visibility_profiles_nothing:
  "profiles w = None \<Longrightarrow> data w = None \<or> display_index w = MEAN \<Longrightarrow>
   update_visibility_profiles w = Inr w"
  by (auto simp add: update_visibility_profiles.simps)

lemma update_visibility_plotted:
  "profiles w = Some ps \<Longrightarrow>
   update_visibility w = Inr (update_visibility_groups (set_profiles_visible ps w))"
  by (simp add: update_visibility.simps update_visibility_profiles_plotted)

lemma update_visibility_nothing:
  "profiles w = None \<Longrightarrow> data w = None \<or> display_index w = MEAN \<Longrightarrow>
   update_visibility w = Inr (update_visibility_groups w)"
  by (simp add: update_visibility.simps update_visibility_profiles_nothing)

lemma update_visibility_ready:
  assumes "profiles w = None \<longrightarrow> data w = None \<or> display_index w = MEAN"
  shows "update_visibility w =
         Inr (update_visibility_groups
                (case profiles w of None \<Rightarrow> w | Some ps \<Rightarrow> set_profiles_visible ps w))"
  using assms
  by (cases "profiles w") (auto simp: update_visibility_nothing update_visibility_plotted)

lemma commit_Some:
  "data w = Some d \<Longrightarrow> list_all (\<lambda>i. i < len d) (selection w) \<Longrightarrow>
   commit w = Inr (w\<lparr>sent :=
     (if selection w = [] then None
      else Some (d\<lparr>instances := map (\<lambda>i. instances d ! i) (selection w)\<rparr>),
      Some (d, map (\<lambda>i. i \<in> set (selection w)) [0..<len d])) # sent w\<rparr>)"
  by (simp add: commit_def has_selection_def getitem_rows_def create_annotated_table_def)

lemma commit_None:
  "data w = None \<Longrightarrow> commit w = Inr (w\<lparr>sent := (None, None) # sent w\<rparr>)"
  by (simp add: commit_def create_annotated_table_def)

lemma commit_empty:
  "selection w = [] \<Longrightarrow>
   commit w = Inr (w\<lparr>sent := (None, map_option (\<lambda>d. (d, replicate (len d) False)) (data w))
                              # sent w\<rparr>)"
  by (cases "data w")
     (simp_all add: commit_def has_selection_def create_annotated_table_def map_replicate_const)

lemma selection_changed_plotted:
  assumes "profiles w = Some ps" "data w = Some d"
    and "list_all (\<lambda>i. i < len d) (set_order w (graph_selection (graph w)))"
  shows "\<exists>w'. selection_changed w = Inr w'
           \<and> graph_selection (graph w') = graph_selection (graph w)
           \<and> selection w' = set_order w (graph_selection (graph w))
           \<and> sent w' = (if set_order w (graph_selection (graph w)) = [] then None
                         else Some (d\<lparr>instances := map (\<lambda>i. instances d ! i)
                                      (set_order w (graph_selection (graph w)))\<rparr>),
                        Some (d, map (\<lambda>i. i \<in> set (set_order w (graph_selection (graph w))))
                                     [0..<len d])) # sent w"
proof -
  let ?w1 = "w\<lparr>selection := set_order w (graph_selection (graph w))\<rparr>"
  let ?w2 = "update_visibility_groups (set_profiles_visible ps ?w1)"
  have uv: "update_visibility ?w1 = Inr ?w2"
    using assms(1) by (simp add: update_visibility_plotted)
  have "data ?w2 = Some d" "list_all (\<lambda>i. i < len d) (selection ?w2)"
    using assms by simp_all
  from commit_Some [OF this] uv show ?thesis
    by (simp add: selection_changed.simps)
qed

section \<open>What plotting the profiles leaves\<close>

lemma dom_items_fold_add:
  "dom (items (fold add_line_plot_item new g)) = dom (items g) \<union> item_index ` set new"
  by (induction new arbitrary: g) (auto simp: add_line_plot_item_def)

lemma graph_selection_fold_add [simp]:
  "graph_selection (fold add_line_plot_item new g) = graph_selection g"
  by (induction new arbitrary: g) (auto simp: add_line_plot_item_def)

lemma new_items_index:
  assumes "length rows = n"
  shows "item_index ` set (map (\<lambda>(index, inst). new_LinePlotItem index (inst_id inst) X (inst_x inst))
                               (zip [0..<n] rows)) = {..<n}"
proof -
  have "item_index ` set (map (\<lambda>(index, inst). new_LinePlotItem index (inst_id inst) X (inst_x inst))
                              (zip [0..<n] rows))
        = set (map fst (zip [0..<n] rows))"
    by (auto simp: new_LinePlotItem_def image_iff split: prod.splits) force+
  also have "\<dots> = {..<n}"
    using assms by (simp add: map_fst_zip atLeast0LessThan)
  finally show ?thesis .
qed

text \<open>
  On a graph without items and with nothing selected, \<open>_plot_profiles\<close> returns with one
  item per row of the data, under the indices \<open>0, \<dots>, len d - 1\<close>. This is the state that
  the theorems on gestures below start from.
\<close>

lemma plot_profiles_fresh:
  assumes "data w = Some d" "selection w = []" "items (graph w) = Map.empty"
  shows "\<exists>w'. plot_profiles w = Inr w' \<and> data w' = Some d \<and> profiles w' = Some [0..<len d]
           \<and> dom (items (graph w')) = {..<len d}
           \<and> graph_selection (graph w') = graph_selection (graph w)"
proof -
  have "length (instances (getitem_columns d (graph_variables w))) = len d"
    by (simp add: getitem_columns_def len_def)
  from new_items_index [OF this] assms show ?thesis
    by (simp add: plot_profiles.simps select_data_instances.simps has_selection_def
        dom_items_fold_add)
qed

section \<open>Selection gestures\<close>

text \<open>
  \<open>LinePlotGraph.select\<close> on a widget that shows its data: every row has its item, and
  the old selection and the candidates are rows of the data. The call returns, and the
  new selection is the combination that the if-chain over the modifier keys picks.
\<close>

lemma graph_select_plotted:
  assumes d: "data w = Some d" and ps: "profiles w = Some ps"
    and it: "dom (items (graph w)) = {..<len d}"
    and S: "graph_selection (graph w) \<subseteq> {..<len d}"
    and C: "set indices \<subseteq> {..<len d}"
    and order: "\<And>A. finite A \<Longrightarrow> set (set_order w A) = A"
    and N: "N = (if ControlModifier \<in> keyboardModifiers w
                 then (graph_selection (graph w) - set indices)
                      \<union> (set indices - graph_selection (graph w))
                 else if AltModifier \<in> keyboardModifiers w
                      then graph_selection (graph w) - set indices
                 else if ShiftModifier \<in> keyboardModifiers w
                      then graph_selection (graph w) \<union> set indices
                 else set indices)"
  shows "\<exists>w'. graph_select indices w = Inr w' \<and> graph_selection (graph w') = N
           \<and> set (selection w') = N"
proof -
  let ?S = "graph_selection (graph w)"
  let ?w1 = "w\<lparr>graph := (graph w)\<lparr>graph_selection := N,
                     items := update_items select N (update_items deselect ?S (items (graph w)))\<rparr>\<rparr>"
  have sub: "N \<subseteq> {..<len d}" using S C unfolding N by auto
  then have fin: "finite N" using finite_subset by blast
  have eq: "graph_select indices w = selection_changed ?w1"
    using S sub it unfolding N by (simp add: graph_select.simps Let_def split del: if_split)
  have "set (set_order ?w1 (graph_selection (graph ?w1))) = N"
    using order [OF fin] by simp
  then have "list_all (\<lambda>i. i < len d) (set_order ?w1 (graph_selection (graph ?w1)))"
    using sub by (auto simp: list_all_iff)
  moreover have "profiles ?w1 = Some ps" "data ?w1 = Some d" using d ps by simp_all
  ultimately obtain w' where "selection_changed ?w1 = Inr w'"
    "graph_selection (graph w') = graph_selection (graph ?w1)"
    "selection w' = set_order ?w1 (graph_selection (graph ?w1))"
    using selection_changed_plotted by blast
  then show ?thesis using eq order [OF fin] by simp
qed

text \<open>
  Claim C4. On a widget that shows its data (every row has its item), with prior
  selection \<open>S\<close> and candidate indices \<open>C\<close> among the rows, \<open>LinePlotGraph.select\<close>
  returns and leaves as the new selection: \<open>C\<close> with no modifier key held (replace), the
  symmetric difference of \<open>S\<close> and \<open>C\<close> with ctrl (toggle), \<open>S - C\<close> with alt
  (subtract), and \<open>S \<union> C\<close> with shift (union). The widget's selection list holds the
  same indices, Python listing a finite set by its elements.
\<close>

theorem select_modifiers:
  assumes "data w = Some d" and "profiles w = Some ps"
    and "dom (items (graph w)) = {..<len d}"
    and "graph_selection (graph w) = S" and "S \<subseteq> {..<len d}"
    and "set C \<subseteq> {..<len d}"
    and "\<And>A. finite A \<Longrightarrow> set (set_order w A) = A"
  shows "(\<exists>w'. graph_select C (w\<lparr>keyboardModifiers := {}\<rparr>) = Inr w'
              \<and> graph_selection (graph w') = set C \<and> set (selection w') = set C)
       \<and> (\<exists>w'. graph_select C (w\<lparr>keyboardModifiers := {ControlModifier}\<rparr>) = Inr w'
              \<and> graph_selection (graph w') = (S - set C) \<union> (set C - S)
              \<and> set (selection w') = (S - set C) \<union> (set C - S))
       \<and> (\<exists>w'. graph_select C (w\<lparr>keyboardModifiers := {AltModifier}\<rparr>) = Inr w'
              \<and> graph_selection (graph w') = S - set C \<and> set (selection w') = S - set C)
       \<and> (\<exists>w'. graph_select C (w\<lparr>keyboardModifiers := {ShiftModifier}\<rparr>) = Inr w'
              \<and> graph_selection (graph w') = S \<union> set C \<and> set (selection w') = S \<union> set C)"
proof -
  have *: "\<exists>w'. graph_select C (w\<lparr>keyboardModifiers := keys\<rparr>) = Inr w'
              \<and> graph_selection (graph w') = N \<and> set (selection w') = N"
    if "N = (if ControlModifier \<in> keys then (S - set C) \<union> (set C - S)
             else if AltModifier \<in> keys then S - set C
             else if ShiftModifier \<in> keys then S \<union> set C
             else set C)" for keys N
    using assms that
    by (intro graph_select_plotted [where d = d and ps = ps]) simp_all
  show ?thesis
    by (intro conjI *) simp_all
qed

text \<open>The widget \<open>plotted_widget\<close> with \<open>S = {0, 1}\<close> and the candidates \<open>[1, 2]\<close>.\<close>

lemma plotted_widget_dom:
  "dom (items (graph plotted_widget)) = {..<len (column_table [Some 1, Some 2, Some 3])}"
  by (auto simp: plotted_widget_def column_table_def len_def dom_def)

theorem select_modifiers_witness:
  "(\<exists>w'. graph_select [1, 2] (plotted_widget\<lparr>keyboardModifiers := {}\<rparr>) = Inr w'
         \<and> graph_selection (graph w') = {1, 2} \<and> set (selection w') = {1, 2})
   \<and> (\<exists>w'. graph_select [1, 2] (plotted_widget\<lparr>keyboardModifiers := {ControlModifier}\<rparr>) = Inr w'
         \<and> graph_selection (graph w') = {0, 2} \<and> set (selection w') = {0, 2})
   \<and> (\<exists>w'. graph_select [1, 2] (plotted_widget\<lparr>keyboardModifiers := {AltModifier}\<rparr>) = Inr w'
         \<and> graph_selection (graph w') = {0} \<and> set (selection w') = {0})
   \<and> (\<exists>w'. graph_select [1, 2] (plotted_widget\<lparr>keyboardModifiers := {ShiftModifier}\<rparr>) = Inr w'
         \<and> graph_selection (graph w') = {0, 1, 2} \<and> set (selection w') = {0, 1, 2})"
proof -
  have a: "data plotted_widget = Some (column_table [Some 1, Some 2, Some 3])"
    "profiles plotted_widget = Some [0, 1, 2]"
    "graph_selection (graph plotted_widget) = {0, 1}"
    by (simp_all add: plotted_widget_def)
  have b: "{0, 1} \<subseteq> {..<len (column_table [Some 1, Some 2, Some 3])}"
    "set [1, 2] \<subseteq> {..<len (column_table [Some 1, Some 2, Some 3])}"
    by (simp_all add: column_table_def len_def)
  have c: "set (set_order plotted_widget A) = A" if "finite A" for A
    using that by (simp add: plotted_widget_def OWLinePlot_init_def)
  have e: "({0, 1} - set [1, 2]) \<union> (set [1, 2] - {0, 1}) = {0, 2::nat}"
    "{0, 1} - set [1, 2] = {0::nat}" "{0, 1} \<union> set [1, 2] = {0, 1, 2::nat}"
    "set [1, 2] = {1, 2::nat}"
    by auto
  note th = select_modifiers [OF a(1) a(2) plotted_widget_dom a(3) b c]
  show ?thesis
    by (rule th [unfolded e(1), unfolded e(2) e(3), unfolded e(4)])
qed

section \<open>The click on empty space\<close>

lemma deselect_all_ready:
  assumes sel: "graph_selection (graph w) \<subseteq> dom (items (graph w))"
    and order: "set_order w {} = []"
    and ready: "profiles w = None \<longrightarrow> data w = None \<or> display_index w = MEAN"
  shows "deselect_all w =
     Inr ((update_visibility_groups
            (case profiles w of
               None \<Rightarrow>
                 w\<lparr>graph := (graph w)\<lparr>items := update_items deselect (graph_selection (graph w))
                                                           (items (graph w)),
                                      graph_selection := {}\<rparr>,
                   selection := []\<rparr>
             | Some ps \<Rightarrow>
                 set_profiles_visible ps
                   (w\<lparr>graph := (graph w)\<lparr>items := update_items deselect (graph_selection (graph w))
                                                             (items (graph w)),
                                        graph_selection := {}\<rparr>,
                     selection := []\<rparr>)))
          \<lparr>sent := (None, map_option (\<lambda>d. (d, replicate (len d) False)) (data w)) # sent w\<rparr>)"
proof -
  let ?w1 = "w\<lparr>graph := (graph w)\<lparr>items := update_items deselect (graph_selection (graph w))
                                                      (items (graph w)),
                                 graph_selection := {}\<rparr>\<rparr>"
  let ?w2 = "?w1\<lparr>selection := set_order ?w1 (graph_selection (graph ?w1))\<rparr>"
  have w2: "?w2 = w\<lparr>graph := (graph w)\<lparr>items := update_items deselect (graph_selection (graph w))
                                                            (items (graph w)),
                                       graph_selection := {}\<rparr>,
                    selection := []\<rparr>"
    using order by simp
  have "profiles ?w2 = None \<longrightarrow> data ?w2 = None \<or> display_index ?w2 = MEAN"
    using ready by simp
  from update_visibility_ready [OF this]
  have uv: "update_visibility ?w2 = Inr (update_visibility_groups
                (case profiles w of None \<Rightarrow> ?w2 | Some ps \<Rightarrow> set_profiles_visible ps ?w2))"
    by simp
  let ?w3 = "update_visibility_groups
                (case profiles w of None \<Rightarrow> ?w2 | Some ps \<Rightarrow> set_profiles_visible ps ?w2)"
  have s3: "selection ?w3 = []" "data ?w3 = data w" "sent ?w3 = sent w"
    using order by (simp_all split: option.split)
  have "deselect_all w = selection_changed ?w1"
    using sel by (simp add: deselect_all_def)
  also have "\<dots> = commit ?w3"
    using uv by (simp add: selection_changed.simps)
  also have "\<dots> = Inr (?w3\<lparr>sent := (None, map_option (\<lambda>d. (d, replicate (len d) False)) (data w))
                                    # sent w\<rparr>)"
    using commit_empty [OF s3(1)] s3 by simp
  finally show ?thesis unfolding w2 .
qed

text \<open>
  Claim C9. A click on empty plot space with a button other than the right one (the left
  button in particular) clears the selection and notifies the widget, whatever modifier
  keys are held: for every set \<open>keys\<close> of held modifiers \<open>mouseClickEvent\<close> returns the same
  state \<open>w'\<close> (apart from the keyboard state itself), in which the selection of the graph
  is empty, the selection of the widget is empty, and the outputs have been sent: no
  selected data, and the data annotated with a column that is false everywhere. The
  widget is in a state its own methods leave: every selected index has an item, the
  profiles exist unless there is no data or the mode is MEAN, and Python lists the empty
  set as the empty list.
\<close>

theorem click_clears_selection:
  assumes "button \<noteq> RightButton"
    and "graph_selection (graph w) \<subseteq> dom (items (graph w))"
    and "set_order w {} = []"
    and "profiles w = None \<longrightarrow> data w = None \<or> display_index w = MEAN"
  shows "\<exists>w'. (\<forall>keys. mouseClickEvent button (w\<lparr>keyboardModifiers := keys\<rparr>)
                       = Inr (w'\<lparr>keyboardModifiers := keys\<rparr>))
           \<and> graph_selection (graph w') = {} \<and> selection w' = []
           \<and> sent w' = (None, map_option (\<lambda>d. (d, replicate (len d) False)) (data w)) # sent w"
proof -
  let ?cleared = "w\<lparr>graph := (graph w)\<lparr>items := update_items deselect (graph_selection (graph w))
                                                           (items (graph w)),
                                      graph_selection := {}\<rparr>,
                   selection := []\<rparr>"
  let ?w' = "(update_visibility_groups
               (case profiles w of None \<Rightarrow> ?cleared
                | Some ps \<Rightarrow> set_profiles_visible ps ?cleared))
             \<lparr>sent := (None, map_option (\<lambda>d. (d, replicate (len d) False)) (data w)) # sent w\<rparr>"
  have "mouseClickEvent button (w\<lparr>keyboardModifiers := keys\<rparr>)
        = Inr (?w'\<lparr>keyboardModifiers := keys\<rparr>)" for keys
  proof -
    let ?v = "w\<lparr>keyboardModifiers := keys\<rparr>"
    have "graph_selection (graph ?v) \<subseteq> dom (items (graph ?v))" "set_order ?v {} = []"
      "profiles ?v = None \<longrightarrow> data ?v = None \<or> display_index ?v = MEAN"
      using assms by simp_all
    from deselect_all_ready [OF this] assms(1) show ?thesis
      by (cases "profiles w")
         (simp_all add: mouseClickEvent_def update_visibility_groups_def set_profiles_visible_def
            has_subset_def Let_def cong: if_cong)
  qed
  moreover have "graph_selection (graph ?w') = {}" "selection ?w' = []"
    "sent ?w' = (None, map_option (\<lambda>d. (d, replicate (len d) False)) (data w)) # sent w"
    by (simp_all split: option.split)
  ultimately show ?thesis by blast
qed

text \<open>A left click on the widget \<open>plotted_widget\<close>, where the profiles 0 and 1 are selected.\<close>

theorem click_clears_selection_witness:
  "\<exists>w'. (\<forall>keys. mouseClickEvent LeftButton (plotted_widget\<lparr>keyboardModifiers := keys\<rparr>)
                = Inr (w'\<lparr>keyboardModifiers := keys\<rparr>))
        \<and> graph_selection (graph w') = {} \<and> selection w' = []
        \<and> sent w' = [(None, Some (column_table [Some 1, Some 2, Some 3], [False, False, False]))]"
proof -
  have a: "LeftButton \<noteq> RightButton"
    "graph_selection (graph plotted_widget) \<subseteq> dom (items (graph plotted_widget))"
    "set_order plotted_widget {} = []"
    "profiles plotted_widget = None
       \<longrightarrow> data plotted_widget = None \<or> display_index plotted_widget = MEAN"
    by (auto simp: plotted_widget_def OWLinePlot_init_def dom_def)
  have b: "map_option (\<lambda>d. (d, replicate (len d) False)) (data plotted_widget)
           = Some (column_table [Some 1, Some 2, Some 3], [False, False, False])"
    by (simp add: plotted_widget_def OWLinePlot_init_def column_table_def len_def)
  have c: "sent plotted_widget = []"
    by (simp add: plotted_widget_def OWLinePlot_init_def)
  from click_clears_selection [OF a] show ?thesis
    unfolding b c .
qed

section \<open>A dataset with no continuous attribute\<close>

text \<open>On a widget with no data and no profiles the callbacks work on nothing.\<close>

lemma idle_selection_changed:
  assumes "data w = None" "profiles w = None"
  shows "\<exists>w'. selection_changed w = Inr w' \<and> data w' = None \<and> profiles w' = None
            \<and> graph w' = graph w"
proof -
  let ?w1 = "w\<lparr>selection := set_order w (graph_selection (graph w))\<rparr>"
  have "update_visibility ?w1 = Inr (update_visibility_groups ?w1)"
    using assms by (simp add: update_visibility_nothing)
  moreover have "data (update_visibility_groups ?w1) = None" using assms by simp
  ultimately show ?thesis
    using assms by (simp add: selection_changed.simps commit_None)
qed

lemma idle_graph_select:
  assumes "data w = None" "profiles w = None" "graph_selection (graph w) = {}"
    and "items (graph w) = Map.empty"
  shows "\<exists>w'. graph_select [] w = Inr w' \<and> data w' = None \<and> profiles w' = None
            \<and> items (graph w') = Map.empty \<and> graph_selection (graph w') = {}"
proof -
  let ?w1 = "w\<lparr>graph := (graph w)\<lparr>graph_selection := {},
                    items := update_items select {} (update_items deselect {} Map.empty)\<rparr>\<rparr>"
  have "graph_select [] w = selection_changed ?w1"
    using assms by (simp add: graph_select.simps Let_def)
  moreover have "data ?w1 = None" "profiles ?w1 = None" using assms by simp_all
  from idle_selection_changed [OF this]
  obtain w' where "selection_changed ?w1 = Inr w'" "data w' = None" "profiles w' = None"
    "graph w' = graph ?w1" by blast
  ultimately show ?thesis by (simp add: update_items_def)
qed

lemma idle_deselect_all:
  assumes "data w = None" "profiles w = None" "graph_selection (graph w) = {}"
    and "items (graph w) = Map.empty"
  shows "\<exists>w'. deselect_all w = Inr w' \<and> data w' = None \<and> profiles w' = None
            \<and> items (graph w') = Map.empty \<and> graph_selection (graph w') = {}"
proof -
  let ?w1 = "w\<lparr>graph := (graph w)\<lparr>items := update_items deselect {} Map.empty,
                                 graph_selection := {}\<rparr>\<rparr>"
  have "deselect_all w = selection_changed ?w1"
    using assms by (simp add: deselect_all_def)
  moreover have "data ?w1 = None" "profiles ?w1 = None" using assms by simp_all
  from idle_selection_changed [OF this]
  obtain w' where "selection_changed ?w1 = Inr w'" "data w' = None" "profiles w' = None"
    "graph w' = graph ?w1" by blast
  ultimately show ?thesis by (simp add: update_items_def)
qed

text \<open>
  Claim C6. \<open>set_data\<close> with a table that has no continuous attribute returns (no
  exception) and leaves the widget with no data, no profiles, no group aggregates, an
  empty selection in the widget and in the graph, no plot items, and the one
  informational message "Need at least one continuous feature."; it sends no selected and
  no annotated data. What was there before and what a stored context holds play no role.
  Later operations are not rejected and still hold no profiles: a click and a drag on the
  plot, a change of the grouping variable, a new subset, a change of the display mode or of
  the error-bar switch.
\<close>

theorem set_data_no_continuous:
  assumes "filter is_continuous (domain_attributes t) = []"
  shows "\<exists>w'. set_data (Some t) ctx w = Inr w'
           \<and> data w' = None \<and> profiles w' = None \<and> groups w' = None
           \<and> selection w' = [] \<and> graph_selection (graph w') = {}
           \<and> items (graph w') = Map.empty
           \<and> information w' = [not_enough_attrs]
           \<and> sent w' = (None, None) # sent w
           \<and> (\<exists>w''. mouseClickEvent button w' = Inr w'' \<and> data w'' = None \<and> profiles w'' = None
                    \<and> items (graph w'') = Map.empty \<and> graph_selection (graph w'') = {})
           \<and> (\<exists>w''. mouseDragEvent button isFinish p1 p2 w' = Inr w'' \<and> data w'' = None
                    \<and> profiles w'' = None
                    \<and> items (graph w'') = Map.empty \<and> graph_selection (graph w'') = {})
           \<and> group_var_changed (w'\<lparr>group_var := gv\<rparr>) = Inr (w'\<lparr>group_var := gv\<rparr>)
           \<and> handleNewSignals (set_data_subset s w')
               = Inr (w'\<lparr>data_subset := s, subset_selection := {}\<rparr>)
           \<and> update_visibility (w'\<lparr>display_index := m, display_quartiles := q\<rparr>)
               = Inr (w'\<lparr>display_index := m, display_quartiles := q\<rparr>)"
proof -
  let ?w' = "w\<lparr>groups := None, profiles := None, graph_variables := [],
               graph := graph_reset (graph w), information := [not_enough_attrs], data := None,
               selection := [],
               group_var := (case domain_class_var t of None \<Rightarrow> None
                             | Some c \<Rightarrow> if is_discrete c then Some c else None),
               sent := (None, None) # sent w\<rparr>"
  have sd: "set_data (Some t) ctx w = Inr ?w'"
    using assms by (simp add: set_data_def clear_def commit_None Let_def)
  have idle: "data ?w' = None" "profiles ?w' = None" "graph_selection (graph ?w') = {}"
    "items (graph ?w') = Map.empty"
    by (simp_all add: graph_reset_def)
  have click: "\<exists>w''. mouseClickEvent button ?w' = Inr w'' \<and> data w'' = None \<and> profiles w'' = None
                    \<and> items (graph w'') = Map.empty \<and> graph_selection (graph w'') = {}"
  proof (cases "button = RightButton")
    case True
    then show ?thesis using idle by (simp add: mouseClickEvent_def)
  next
    case False
    then show ?thesis using idle_deselect_all [OF idle] by (simp add: mouseClickEvent_def)
  qed
  have drag: "\<exists>w''. mouseDragEvent button isFinish p1 p2 ?w' = Inr w'' \<and> data w'' = None
                    \<and> profiles w'' = None
                    \<and> items (graph w'') = Map.empty \<and> graph_selection (graph w'') = {}"
  proof (cases "graph_state (graph ?w') = SELECT \<and> button = LeftButton \<and> isFinish")
    case True
    have "select_by_line p1 p2 ?w' = graph_select [] ?w'"
      by (simp add: select_by_line_def)
    then show ?thesis using True idle_graph_select [OF idle]
      by (simp add: mouseDragEvent_def)
  next
    case False
    have "mouseDragEvent button isFinish p1 p2 ?w' = Inr ?w'"
      unfolding mouseDragEvent_def by (rule if_not_P) (rule False)
    then show ?thesis using idle by simp
  qed
  have gvc: "group_var_changed (?w'\<lparr>group_var := gv\<rparr>) = Inr (?w'\<lparr>group_var := gv\<rparr>)"
    by (simp add: group_var_changed_def)
  have hns: "handleNewSignals (set_data_subset s ?w')
               = Inr (?w'\<lparr>data_subset := s, subset_selection := {}\<rparr>)"
    by (simp add: handleNewSignals_def set_data_subset_def deselect_subset_def graph_reset_def)
  have uv: "update_visibility (?w'\<lparr>display_index := m, display_quartiles := q\<rparr>)
               = Inr (?w'\<lparr>display_index := m, display_quartiles := q\<rparr>)"
    by (simp add: update_visibility_nothing update_visibility_groups_def)
  show ?thesis
    using sd click drag gvc hns uv
    by (intro exI [of _ ?w']) (simp add: graph_reset_def)
qed

text \<open>Loading \<open>discrete_table\<close>, whose only attribute is discrete, into a fresh widget.\<close>

theorem set_data_no_continuous_witness:
  "\<exists>w'. set_data (Some discrete_table) None (OWLinePlot_init {} sorted_list_of_set) = Inr w'
        \<and> data w' = None \<and> profiles w' = None \<and> groups w' = None
        \<and> selection w' = [] \<and> graph_selection (graph w') = {}
        \<and> items (graph w') = Map.empty
        \<and> information w' = [not_enough_attrs]
        \<and> sent w' = [(None, None)]
        \<and> (\<exists>w''. mouseClickEvent LeftButton w' = Inr w'' \<and> data w'' = None \<and> profiles w'' = None)"
proof -
  have a: "filter is_continuous (domain_attributes discrete_table) = []"
    by (simp add: discrete_table_def)
  have b: "sent (OWLinePlot_init {} sorted_list_of_set) = []"
    by (simp add: OWLinePlot_init_def)
  from set_data_no_continuous [OF a, of None "OWLinePlot_init {} sorted_list_of_set" LeftButton]
  show ?thesis unfolding b by blast
qed

section \<open>The outputs\<close>

text \<open>
  Claim C5, amended. For loaded data and a selection list whose indices are rows of the
  data, \<open>commit\<close> sends as selected data None when the selection is empty, and otherwise the
  sub-table of the rows at the selected indices in the order in which the selection list
  holds them (ascending index order only when the list is ascending); and it sends the
  full table with a column that is true exactly at the selected rows. With the empty
  selection it sends None and the table with a column that is false everywhere.
\<close>

theorem commit_projection:
  assumes "data w = Some d" and "list_all (\<lambda>i. i < len d) (selection w)"
  shows "\<exists>w'. commit w = Inr w'
           \<and> sent w' = (if selection w = [] then None
                         else Some (d\<lparr>instances := map (\<lambda>i. instances d ! i) (selection w)\<rparr>),
                        Some (d, map (\<lambda>i. i \<in> set (selection w)) [0..<len d])) # sent w
           \<and> (selection w = []
                \<longrightarrow> sent w' = (None, Some (d, replicate (len d) False)) # sent w)"
  using assms commit_Some [OF assms] by (simp add: map_replicate_const)

text \<open>The widget \<open>plotted_widget\<close>, with the selection list \<open>[0, 1]\<close> on three rows.\<close>

theorem commit_projection_witness:
  "\<exists>w'. commit plotted_widget = Inr w'
        \<and> map (\<lambda>(selected, annotated). (map_option table_ids selected, map_option snd annotated))
              (sent w')
          = [(Some [100, 101], Some [True, True, False])]"
proof -
  have a: "data plotted_widget = Some (column_table [Some 1, Some 2, Some 3])"
    "list_all (\<lambda>i. i < len (column_table [Some 1, Some 2, Some 3])) (selection plotted_widget)"
    by (simp_all add: plotted_widget_def column_table_def len_def)
  from commit_projection [OF a] obtain w' where
    "commit plotted_widget = Inr w'"
    "sent w' = (if selection plotted_widget = [] then None
                else Some ((column_table [Some 1, Some 2, Some 3])
                             \<lparr>instances := map (\<lambda>i. instances (column_table [Some 1, Some 2, Some 3]) ! i)
                                               (selection plotted_widget)\<rparr>),
                Some (column_table [Some 1, Some 2, Some 3],
                      map (\<lambda>i. i \<in> set (selection plotted_widget))
                          [0..<len (column_table [Some 1, Some 2, Some 3])])) # sent plotted_widget"
    by blast
  then show ?thesis
    by (simp add: plotted_widget_def OWLinePlot_init_def column_table_def len_def table_ids_def)
qed

text \<open>
  The claim as stated fails on the order. With nine rows and the selection list
  \<open>[8, 1]\<close> (the order in which CPython lists the set \<open>{1, 8}\<close>) the selected data are the
  rows with the ids 108 and 101, in this order; in index order they would be 101 and 108.
\<close>

theorem commit_index_order_counterexample:
  "(case commit ((OWLinePlot_init {} sorted_list_of_set)
                   \<lparr>data := Some (column_table [Some 0, Some 1, Some 2, Some 3, Some 4, Some 5,
                                                Some 6, Some 7, Some 8]),
                    selection := [8, 1]\<rparr>) of
      Inl e \<Rightarrow> None
    | Inr w' \<Rightarrow> map_option table_ids (fst (hd (sent w')))) = Some [108, 101]
   \<and> (case getitem_rows (column_table [Some 0, Some 1, Some 2, Some 3, Some 4, Some 5,
                                       Some 6, Some 7, Some 8]) (sort [8, 1]) of
        Inl e \<Rightarrow> None
      | Inr t \<Rightarrow> Some (table_ids t)) = Some [101, 108]"
  by (simp add: commit_def has_selection_def getitem_rows_def create_annotated_table_def
      OWLinePlot_init_def column_table_def len_def table_ids_def)

section \<open>Stale selections and the subset\<close>

lemmas widget_eval =
  select_data_instances.simps graph_select.simps selection_changed.simps
  update_visibility.simps update_visibility_profiles.simps plot_profiles.simps
  set_data_def setup_plot_def plot_groups_def plot_group_def commit_def clear_def
  openContext_def graph_reset_def OWLinePlot_init_def column_table_def
  get_range_curve_def get_error_bar_def get_mean_curve_def
  nanmean_def nanmean1_def nanmax_def nanmax1_def nanmin_def nanmin1_def
  nanpercentile_def nanpercentile1_def percentile_sorted_def clip_def array_sub_def
  fsub_def fminimum_def fmaximum_def table_X_def column_def getitem_columns_def
  select_columns_def getitem_rows_def create_annotated_table_def len_def has_selection_def
  has_subset_def update_visibility_groups_def set_group_visible_def arange1_def
  set_profiles_visible_def update_items_def add_line_plot_item_def new_LinePlotItem_def
  select_subset_def handleNewSignals_def set_data_subset_def table_ids_def into_subset_def
  setVisible_def deselect_subset_def Let_def

text \<open>
  Where \<open>__select_data_instances\<close> does run, on a graph that \<open>reset\<close> has emptied and
  with at least one row, a restored selection with an index past the end is dropped as a
  whole.
\<close>

lemma select_data_instances_resets:
  assumes d: "data w = Some d" "0 < len d" and ps: "profiles w = Some ps"
    and g: "graph_selection (graph w) = {}" and order: "set_order w {} = []"
    and stale: "\<exists>i\<in>set (selection w). len d \<le> i"
  shows "\<exists>w'. select_data_instances w = Inr w' \<and> selection w' = []
            \<and> graph_selection (graph w') = {}"
proof -
  have ne: "selection w \<noteq> []" using stale by auto
  then have "len d \<le> Max (set (selection w))"
    using stale by (simp add: Max_ge_iff)
  then have eq: "select_data_instances w = graph_select [] (w\<lparr>selection := []\<rparr>)"
    using d ne by (simp add: select_data_instances.simps has_selection_def)
  let ?w1 = "w\<lparr>selection := [],
               graph := (graph w)\<lparr>graph_selection := {},
                                  items := update_items select {}
                                             (update_items deselect {} (items (graph w)))\<rparr>\<rparr>"
  have gs: "graph_select [] (w\<lparr>selection := []\<rparr>) = selection_changed ?w1"
    using g by (simp add: graph_select.simps Let_def)
  have "profiles ?w1 = Some ps" "data ?w1 = Some d"
    "list_all (\<lambda>i. i < len d) (set_order ?w1 (graph_selection (graph ?w1)))"
    using d ps order by simp_all
  from selection_changed_plotted [OF this] eq gs order show ?thesis by auto
qed

text \<open>
  Claim C2 fails on the code. A widget in the display mode MEAN receives a table of three
  rows, and the stored context of its domain restores the selection \<open>[5]\<close>. In this mode
  neither \<open>_setup_plot\<close> nor \<open>__update_visibility_profiles\<close> creates the profiles, so
  \<open>__select_data_instances\<close> never runs: after \<open>_setup_plot\<close> the selection is still
  \<open>[5]\<close>, and \<open>commit\<close> subscripts the data with it and raises IndexError. In the modes
  INSTANCES and RANGE_WITH_MEAN the same input ends with the empty selection.
\<close>

theorem stale_selection_in_mean_mode:
  "(case setup_plot
           (openContext (Some \<lparr>context_group_var = None, context_selection = [5]\<rparr>)
              ((OWLinePlot_init keys order)
                 \<lparr>display_index := MEAN,
                  data := Some (column_table [Some 1, Some 2, Some 3]),
                  graph_variables := [ContinuousVariable ''a'']\<rparr>)) of
      Inl e \<Rightarrow> None
    | Inr w \<Rightarrow> Some (selection w)) = Some [5]
   \<and> set_data (Some (column_table [Some 1, Some 2, Some 3]))
        (Some \<lparr>context_group_var = None, context_selection = [5]\<rparr>)
        ((OWLinePlot_init keys order)\<lparr>display_index := MEAN\<rparr>)
     = Inl IndexError
   \<and> (case set_data (Some (column_table [Some 1, Some 2, Some 3]))
              (Some \<lparr>context_group_var = None, context_selection = [5]\<rparr>)
              ((OWLinePlot_init {} sorted_list_of_set)\<lparr>display_index := INSTANCES\<rparr>) of
        Inl e \<Rightarrow> None
      | Inr w \<Rightarrow> Some (selection w)) = Some []
   \<and> (case set_data (Some (column_table [Some 1, Some 2, Some 3]))
              (Some \<lparr>context_group_var = None, context_selection = [5]\<rparr>)
              ((OWLinePlot_init {} sorted_list_of_set)\<lparr>display_index := RANGE_WITH_MEAN\<rparr>) of
        Inl e \<Rightarrow> None
      | Inr w \<Rightarrow> Some (selection w)) = Some []"
  by (simp add: widget_eval)

text \<open>
  What \<open>__update_visibility_profiles\<close> decides for a profile: the subset enters through
  the ids of its rows, which are compared with the index of the profile.
\<close>

lemma set_profiles_visible_item:
  assumes "i \<in> set ps" "items (graph w) i = Some profile"
  shows "map_option item_visible (items (graph (set_profiles_visible ps w)) i)
         = Some (display_index w \<in> {INSTANCES, INSTANCES_WITH_MEAN}
                 \<or> (item_index profile \<in> set (selection w)
                     \<or> has_subset w \<and> item_index profile \<in> set (table_ids (the (data_subset w))))
                   \<and> display_index w = RANGE_WITH_MEAN)"
  using assms by (auto simp: set_profiles_visible_def setVisible_def Let_def)

text \<open>
  Claim C3 fails on the code. A fresh widget (mode RANGE_WITH_MEAN, nothing selected)
  receives a table with one row, whose id is 100, and then the same table as the subset.
  \<open>handleNewSignals\<close> finds the row by its id and marks its profile as in the subset. The
  visibility test looks for the profile's index, 0, among the ids of the subset, does not
  find it, and hides the profile, which by the claim is visible.
\<close>

theorem subset_profile_hidden:
  "(case set_data (Some (column_table [Some 1])) None (OWLinePlot_init keys order) of
      Inl e \<Rightarrow> None
    | Inr w1 \<Rightarrow>
        (case handleNewSignals (set_data_subset (Some (column_table [Some 1])) w1) of
           Inl e \<Rightarrow> None
         | Inr w2 \<Rightarrow>
             map_option (\<lambda>profile. (display_index w2, selection w2, subset_selection w2,
                                     item_index profile, item_id profile,
                                     item_in_subset profile, item_visible profile))
                        (items (graph w2) 0)))
   = Some (RANGE_WITH_MEAN, [], {100}, 0, 100, True, False)"
  by (simp add: widget_eval)

end
